theory Spec2Isabelle
  imports Complex_Main
begin

section \<open>The token watcher: values, store and subscription state\<close>

text \<open>
  The program (\<^verbatim>\<open>src/main.py\<close>) keeps one websocket connection to a feed, writes what
  it receives into two SQLite tables (\<^verbatim>\<open>tokens\<close>, \<^verbatim>\<open>raw_txs\<close>) and keeps a set of
  subscribed token ids together with a queue of ids waiting for their subscribe command.

  Conventions of the embedding:
  \<^item> a decoded message is a JSON value; a Python dict is the list of its items, read with
    \<open>map_of\<close> (the first binding of a key is the dict's entry);
  \<^item> Python floats are idealised as reals: rounding, infinities and NaN are outside the
    model. \<^verbatim>\<open>float(str)\<close> is a parameter \<open>float_of_str\<close> of the functions
    that coerce (\<open>None\<close> is Python's \<^verbatim>\<open>ValueError\<close>);
  \<^item> a column holds the value that was bound to it. SQLite's re-encoding by column
    affinity (a number bound to a TEXT column is kept as its text) and Python's equality
    across numeric types are not modelled, so every statement about an entity id takes the
    id to be a JSON string, which binds to SQLite text unchanged;
  \<^item> a string is a text that encodes in UTF-8, which is what SQLite takes;
  \<^item> whatever the environment decides (whether a connection attempt succeeds, whether a
    send goes through, which message arrives) is an argument of the step it decides.
    While a message is processed the database file opens and commits; in \<^verbatim>\<open>connect\<close> a
    read that fails is one of the outcomes of an attempt;
  \<^item> the three tasks interleave at whole steps: one iteration of the loop of \<^verbatim>\<open>main\<close>,
    one pass of a \<^verbatim>\<open>subscription_handler\<close> over the queue. Two handler tasks taking
    turns inside one pass are not modelled;
  \<^item> console output and \<^verbatim>\<open>stats_printer\<close>, which only reads, are left out.
\<close>

datatype json =
    JNull
  | JBool bool
  | JInt int
  | JFloat real
  | JStr string
  | JArr "json list"
  | JObj "(string \<times> json) list"

datatype pyerror =
    TypeError
  | ValueError
  | KeyError
  | AttributeError
  | OverflowError
  | BindingError
  | IntegrityError
  | OperationalError
  | OSError
  | ConnectionClosed

datatype sqlval = SNull | SInt int | SReal real | SText string

text \<open>A row of \<^verbatim>\<open>tokens\<close> (lines 51-59) and a row of \<^verbatim>\<open>raw_txs\<close> (lines 64-80).\<close>

record token_row =
  mint :: sqlval
  timestamp :: sqlval
  initial_sol_liquidity :: sqlval
  name :: sqlval
  symbol :: sqlval

record raw_tx =
  tx_id :: nat
  tx_mint :: sqlval
  tx_timestamp :: sqlval
  traderPublicKey :: sqlval
  tx_type :: sqlval
  token_amount :: sqlval
  sol_amount :: sqlval
  new_token_balance :: sqlval
  bondingCurveKey :: sqlval
  vTokensInBondingCurve :: sqlval
  vSolInBondingCurve :: sqlval
  marketCapSol :: sqlval

text \<open>
  A connection to the database file. \<^verbatim>\<open>PRAGMA foreign_keys\<close> is a setting of the
  connection, not of the file.
\<close>

record db_conn =
  foreign_keys :: bool

datatype command = SubscribeNewToken | SubscribeTokenTrade json

text \<open>
  The whole state: the two tables, the fields of \<^verbatim>\<open>WebSocketManager\<close> (lines 94-98), the
  \<^verbatim>\<open>stats\<close> dict of \<^verbatim>\<open>main\<close> (lines 197-200) and, for observation, the commands put on
  the wire (each with the connection it went out on), the sleeps of \<^verbatim>\<open>connect\<close> and the
  number of \<^verbatim>\<open>subscription_handler\<close> tasks created. Connections are numbered in the order
  they are established; \<open>conn = None\<close> is Python's \<^verbatim>\<open>self.conn = None\<close>.
\<close>

record state =
  tokens :: "token_row list"
  raw_txs :: "raw_tx list"
  conn :: "nat option"
  active_tokens :: "json set"
  reconnect_attempts :: nat
  pending_subscriptions :: "json list"
  handler_tasks :: nat
  sent :: "(nat \<times> command) list"
  slept :: "real list"
  processed_txs :: nat
  token_creations :: nat

definition init_state :: state where
  "init_state =
     \<lparr>tokens = [], raw_txs = [], conn = None, active_tokens = {}, reconnect_attempts = 0,
      pending_subscriptions = [], handler_tasks = 0, sent = [], slept = [],
      processed_txs = 0, token_creations = 0\<rparr>"

subsection \<open>Configuration (lines 13-25)\<close>

definition INITIAL_RECONNECT_DELAY :: real where
  "INITIAL_RECONNECT_DELAY = 1"

definition MAX_RECONNECT_DELAY :: real where
  "MAX_RECONNECT_DELAY = 60"

subsection \<open>Python values\<close>

text \<open>Truth value of a decoded JSON value, as \<^verbatim>\<open>x or 0\<close> tests it.\<close>

fun truthy :: "json \<Rightarrow> bool" where
  "truthy JNull = False"
| "truthy (JBool b) = b"
| "truthy (JInt n) = (n \<noteq> 0)"
| "truthy (JFloat r) = (r \<noteq> 0)"
| "truthy (JStr s) = (s \<noteq> [])"
| "truthy (JArr xs) = (xs \<noteq> [])"
| "truthy (JObj kvs) = (kvs \<noteq> [])"

definition py_or :: "json \<Rightarrow> json \<Rightarrow> json" where
  "py_or a b = (if truthy a then a else b)"

text \<open>
  \<^verbatim>\<open>float(v)\<close>. An \<^verbatim>\<open>int\<close> that rounds to a double beyond the largest one raises
  \<^verbatim>\<open>OverflowError\<close>; the bound is the midpoint between the largest double and \<open>2\<^sup>1\<^sup>0\<^sup>2\<^sup>4\<close>.
\<close>

definition DBL_OVERFLOW :: int where
  "DBL_OVERFLOW = 2 ^ 1024 - 2 ^ 970"

fun py_float :: "(string \<Rightarrow> real option) \<Rightarrow> json \<Rightarrow> pyerror + real" where
  "py_float float_of_str JNull = Inl TypeError"
| "py_float float_of_str (JBool b) = Inr (if b then 1 else 0)"
| "py_float float_of_str (JInt n) =
     (if \<bar>n\<bar> < DBL_OVERFLOW then Inr (real_of_int n) else Inl OverflowError)"
| "py_float float_of_str (JFloat r) = Inr r"
| "py_float float_of_str (JStr s) =
     (case float_of_str s of None \<Rightarrow> Inl ValueError | Some r \<Rightarrow> Inr r)"
| "py_float float_of_str (JArr xs) = Inl TypeError"
| "py_float float_of_str (JObj kvs) = Inl TypeError"

text \<open>\<^verbatim>\<open>data.get(k, dflt)\<close>, \<^verbatim>\<open>k in data\<close> and \<^verbatim>\<open>data[k]\<close>.\<close>

definition dict_get :: "(string \<times> json) list \<Rightarrow> string \<Rightarrow> json \<Rightarrow> json" where
  "dict_get data k dflt = (case map_of data k of None \<Rightarrow> dflt | Some v \<Rightarrow> v)"

definition has_key :: "(string \<times> json) list \<Rightarrow> string \<Rightarrow> bool" where
  "has_key data k = (map_of data k \<noteq> None)"

definition subscript :: "(string \<times> json) list \<Rightarrow> string \<Rightarrow> pyerror + json" where
  "subscript data k = (case map_of data k of None \<Rightarrow> Inl KeyError | Some v \<Rightarrow> Inr v)"

text \<open>\<^verbatim>\<open>float(data.get(k, 0) or 0)\<close>, the coercion of lines 221-227.\<close>

definition float_field ::
  "(string \<Rightarrow> real option) \<Rightarrow> (string \<times> json) list \<Rightarrow> string \<Rightarrow> pyerror + real" where
  "float_field float_of_str data k =
     py_float float_of_str (py_or (dict_get data k (JInt 0)) (JInt 0))"

text \<open>Sequencing of steps that may raise: the first exception ends the sequence.\<close>

definition and_then :: "'e + 'a \<Rightarrow> ('a \<Rightarrow> 'e + 'b) \<Rightarrow> 'e + 'b" where
  "and_then r f = (case r of Inl e \<Rightarrow> Inl e | Inr v \<Rightarrow> f v)"

text \<open>The six coerced fields, in the order of lines 221-227.\<close>

record floats =
  f_token_amount :: real
  f_sol_amount :: real
  f_new_token_balance :: real
  f_v_tokens_bc :: real
  f_v_sol_bc :: real
  f_market_cap_sol :: real

definition extract_floats ::
  "(string \<Rightarrow> real option) \<Rightarrow> (string \<times> json) list \<Rightarrow> pyerror + floats" where
  "extract_floats float_of_str data =
     and_then (float_field float_of_str data ''tokenAmount'') (\<lambda>ta.
     and_then (float_field float_of_str data ''solAmount'') (\<lambda>sa.
     and_then (float_field float_of_str data ''newTokenBalance'') (\<lambda>nb.
     and_then (float_field float_of_str data ''vTokensInBondingCurve'') (\<lambda>vt.
     and_then (float_field float_of_str data ''vSolInBondingCurve'') (\<lambda>vs.
     and_then (float_field float_of_str data ''marketCapSol'') (\<lambda>mc.
       Inr \<lparr>f_token_amount = ta, f_sol_amount = sa, f_new_token_balance = nb,
            f_v_tokens_bc = vt, f_v_sol_bc = vs, f_market_cap_sol = mc\<rparr>))))))"

subsection \<open>The store\<close>

text \<open>
  How Python's \<^verbatim>\<open>sqlite3\<close> binds a parameter: \<^verbatim>\<open>None\<close>, \<^verbatim>\<open>int\<close> (and \<^verbatim>\<open>bool\<close>, its
  subclass), \<^verbatim>\<open>float\<close> and \<^verbatim>\<open>str\<close> are supported, an \<^verbatim>\<open>int\<close> outside 64 bits and
  every other type raise.
\<close>

fun bind :: "json \<Rightarrow> pyerror + sqlval" where
  "bind JNull = Inr SNull"
| "bind (JBool b) = Inr (SInt (if b then 1 else 0))"
| "bind (JInt n) =
     (if - (2 ^ 63) \<le> n \<and> n < 2 ^ 63 then Inr (SInt n) else Inl OverflowError)"
| "bind (JFloat r) = Inr (SReal r)"
| "bind (JStr s) = Inr (SText s)"
| "bind (JArr xs) = Inl BindingError"
| "bind (JObj kvs) = Inl BindingError"

text \<open>What a \<^verbatim>\<open>SELECT\<close> hands back to Python for a stored value.\<close>

fun py_of_sql :: "sqlval \<Rightarrow> json" where
  "py_of_sql SNull = JNull"
| "py_of_sql (SInt n) = JInt n"
| "py_of_sql (SReal r) = JFloat r"
| "py_of_sql (SText s) = JStr s"

text \<open>
  \<^verbatim>\<open>aiosqlite.connect(Config.DB_PATH)\<close>: a new connection, with SQLite's default for foreign
  keys, which is off (in every build that does not set \<^verbatim>\<open>SQLITE_DEFAULT_FOREIGN_KEYS\<close>,
  the one in Python among them).
\<close>

definition aiosqlite_connect :: db_conn where
  "aiosqlite_connect = \<lparr>foreign_keys = False\<rparr>"

text \<open>
  \<^verbatim>\<open>initialize_database\<close> (lines 40-88) opens a connection, turns foreign keys on for it
  (line 46), creates the two tables and the index if they are not there, commits and
  closes the connection. The tables are the two lists of the state, so nothing of the
  state changes, and the connection with the pragma is gone when the function returns.
\<close>

definition initialize_database :: "state \<Rightarrow> state" where
  "initialize_database s = (let db = aiosqlite_connect\<lparr>foreign_keys := True\<rparr> in s)"

text \<open>
  \<^verbatim>\<open>INSERT OR IGNORE INTO tokens\<close> (lines 239-251): \<^verbatim>\<open>mint\<close> is the primary key, so a
  row whose key is already there is ignored. SQLite lets a NULL into this key column and
  never takes two NULLs for equal. The number is the cursor's \<^verbatim>\<open>rowcount\<close>.
\<close>

definition insert_or_ignore_token :: "token_row \<Rightarrow> state \<Rightarrow> nat \<times> state" where
  "insert_or_ignore_token r s =
     (if mint r \<noteq> SNull \<and> mint r \<in> set (map mint (tokens s)) then (0, s)
      else (1, s\<lparr>tokens := tokens s @ [r]\<rparr>))"

text \<open>
  \<^verbatim>\<open>INSERT INTO raw_txs\<close> (lines 261-283) on the connection \<open>db\<close>: \<^verbatim>\<open>mint\<close> is
  \<^verbatim>\<open>NOT NULL\<close> and references \<^verbatim>\<open>tokens(mint)\<close>, which SQLite checks only on a
  connection that has foreign keys on; \<^verbatim>\<open>id\<close> is the next number.
\<close>

definition insert_raw_tx :: "db_conn \<Rightarrow> raw_tx \<Rightarrow> state \<Rightarrow> pyerror + state" where
  "insert_raw_tx db r s =
     (if tx_mint r = SNull then Inl IntegrityError
      else if foreign_keys db \<and> tx_mint r \<notin> set (map mint (tokens s)) then Inl IntegrityError
      else Inr (s\<lparr>raw_txs := raw_txs s @ [r\<lparr>tx_id := Suc (length (raw_txs s))\<rparr>]\<rparr>))"

subsection \<open>The subscription queue (lines 122-157)\<close>

text \<open>\<^verbatim>\<open>subscribe_token\<close>: the id is put on the queue, whatever it is.\<close>

definition subscribe_token :: "json \<Rightarrow> state \<Rightarrow> state" where
  "subscribe_token m s = s\<lparr>pending_subscriptions := pending_subscriptions s @ [m]\<rparr>"

text \<open>
  \<^verbatim>\<open>self.conn.send(...)\<close>: \<open>ok\<close> says whether the transport takes the command; without a
  connection, or when it does not, the call raises.
\<close>

definition send :: "bool \<Rightarrow> command \<Rightarrow> state \<Rightarrow> pyerror + state" where
  "send ok c s =
     (case conn s of
        None \<Rightarrow> Inl AttributeError
      | Some k \<Rightarrow> if ok then Inr (s\<lparr>sent := sent s @ [(k, c)]\<rparr>) else Inl ConnectionClosed)"

text \<open>
  One pass of \<^verbatim>\<open>subscription_handler\<close> over the queue (lines 126-133): each id is taken
  off the queue; one that is not in \<^verbatim>\<open>active_tokens\<close> is subscribed and added. A send
  that raises ends the pass (lines 135-137): the id it was for is already off the queue.
\<close>

fun drain :: "bool \<Rightarrow> json list \<Rightarrow> state \<Rightarrow> state" where
  "drain ok [] s = s\<lparr>pending_subscriptions := []\<rparr>"
| "drain ok (m # q) s =
     (if m \<in> active_tokens s then drain ok q s
      else case send ok (SubscribeTokenTrade m) s of
             Inl e \<Rightarrow> s\<lparr>pending_subscriptions := q\<rparr>
           | Inr s' \<Rightarrow> drain ok q (s'\<lparr>active_tokens := insert m (active_tokens s')\<rparr>))"

definition subscription_handler :: "bool \<Rightarrow> state \<Rightarrow> state" where
  "subscription_handler ok s =
     (if handler_tasks s = 0 then s else drain ok (pending_subscriptions s) s)"

subsection \<open>Connecting (lines 100-121, 139-153)\<close>

text \<open>
  What the environment does to one pass through the \<^verbatim>\<open>try\<close> of \<^verbatim>\<open>connect\<close>:
  \<^verbatim>\<open>websockets.connect\<close> raises; or it returns and the first send of
  \<^verbatim>\<open>initial_subscriptions\<close> raises; or that send goes through and reading the database
  raises; or nothing raises.
\<close>

datatype attempt = ConnectRaises | SendRaises | DbRaises | Succeeds

text \<open>Steps that may raise after they have changed the state keep the state they reached.\<close>

definition then_do ::
  "pyerror option \<times> state \<Rightarrow> (state \<Rightarrow> pyerror option \<times> state) \<Rightarrow> pyerror option \<times> state" where
  "then_do r f = (case r of (None, s) \<Rightarrow> f s | (Some e, s) \<Rightarrow> (Some e, s))"

text \<open>
  \<^verbatim>\<open>initial_subscriptions\<close>: the command for the creation stream is sent, then every
  \<^verbatim>\<open>mint\<close> of \<^verbatim>\<open>tokens\<close> is handed to \<^verbatim>\<open>subscribe_token\<close>. The order of the rows of a
  \<^verbatim>\<open>SELECT\<close> without \<^verbatim>\<open>ORDER BY\<close> is SQLite's choice; the model takes the order of
  insertion.
\<close>

definition initial_subscriptions :: "bool \<Rightarrow> bool \<Rightarrow> state \<Rightarrow> pyerror option \<times> state" where
  "initial_subscriptions send_ok db_ok s =
     (case send send_ok SubscribeNewToken s of
        Inl e \<Rightarrow> (Some e, s)
      | Inr s1 \<Rightarrow>
          if db_ok
          then (None, fold subscribe_token (map (\<lambda>row. py_of_sql (mint row)) (tokens s1)) s1)
          else (Some OperationalError, s1))"

text \<open>The body of the \<^verbatim>\<open>try\<close> (lines 105-112).\<close>

definition try_connect :: "attempt \<Rightarrow> state \<Rightarrow> pyerror option \<times> state" where
  "try_connect a s =
     (if a = ConnectRaises then (Some OSError, s)
      else
        then_do
          (initial_subscriptions (a \<noteq> SendRaises) (a \<noteq> DbRaises)
             (s\<lparr>conn := Some (case conn s of None \<Rightarrow> 1 | Some k \<Rightarrow> Suc k),
                reconnect_attempts := 0\<rparr>))
          (\<lambda>s2. (None, s2\<lparr>handler_tasks := Suc (handler_tasks s2)\<rparr>)))"

text \<open>
  \<^verbatim>\<open>math.exp\<close> of the counter: the result is a double, and from 710 on \<open>e\<^sup>n\<close> is beyond the
  largest double, where \<^verbatim>\<open>math.exp\<close> raises \<^verbatim>\<open>OverflowError\<close>.
\<close>

definition math_exp :: "nat \<Rightarrow> pyerror + real" where
  "math_exp n = (if n \<le> 709 then Inr (exp (real n)) else Inl OverflowError)"

text \<open>
  The \<^verbatim>\<open>while True\<close> of \<^verbatim>\<open>connect\<close>, driven by the outcomes of the attempts to come.
  \<open>Some (None, s')\<close> says that an attempt went through and \<^verbatim>\<open>connect\<close> returned, leaving
  \<open>s'\<close>. \<open>Some (Some e, s')\<close> says that \<^verbatim>\<open>connect\<close> raised \<open>e\<close>: the lines of the \<^verbatim>\<open>except\<close>
  clause (114-120) are not inside a \<^verbatim>\<open>try\<close> of their own, so what \<^verbatim>\<open>math.exp\<close> raises
  there leaves the function, after the sleep and the increment. \<open>None\<close> says that every
  outcome listed was a failure, so the loop is still retrying.
\<close>

fun connect_loop :: "attempt list \<Rightarrow> real \<Rightarrow> state \<Rightarrow> (pyerror option \<times> state) option" where
  "connect_loop [] delay s = None"
| "connect_loop (a # as) delay s =
     (case try_connect a s of
        (None, s') \<Rightarrow> Some (None, s')
      | (Some e, s') \<Rightarrow>
          (let s'' = s'\<lparr>slept := slept s' @ [delay],
                        reconnect_attempts := reconnect_attempts s' + 1\<rparr>
           in case math_exp (reconnect_attempts s'') of
                Inl e' \<Rightarrow> Some (Some e', s'')
              | Inr x \<Rightarrow>
                  connect_loop as (min MAX_RECONNECT_DELAY (INITIAL_RECONNECT_DELAY * x)) s''))"

definition connect :: "attempt list \<Rightarrow> state \<Rightarrow> (pyerror option \<times> state) option" where
  "connect as s = connect_loop as INITIAL_RECONNECT_DELAY s"

subsection \<open>One message (lines 208-286)\<close>

text \<open>The parameters of the insert into \<^verbatim>\<open>tokens\<close> (lines 244-250), bound.\<close>

definition token_params :: "(string \<times> json) list \<Rightarrow> pyerror + token_row" where
  "token_params data =
     and_then (and_then (subscript data ''mint'') bind) (\<lambda>m.
     and_then (and_then (subscript data ''timestamp'') bind) (\<lambda>t.
     and_then (bind (dict_get data ''initialBuy'' (JInt 0))) (\<lambda>ib.
     and_then (bind (dict_get data ''name'' (JStr ''''))) (\<lambda>nm.
     and_then (bind (dict_get data ''symbol'' (JStr ''''))) (\<lambda>sy.
       Inr \<lparr>mint = m, timestamp = t, initial_sol_liquidity = ib, name = nm,
            symbol = sy\<rparr>)))))"

text \<open>The parameters of the insert into \<^verbatim>\<open>raw_txs\<close> (lines 270-282), bound.\<close>

definition raw_tx_params ::
  "(string \<times> json) list \<Rightarrow> json \<Rightarrow> json \<Rightarrow> json \<Rightarrow> floats \<Rightarrow> pyerror + raw_tx" where
  "raw_tx_params data txType trader_pubkey bonding_curve_key f =
     and_then (and_then (subscript data ''mint'') bind) (\<lambda>m.
     and_then (and_then (subscript data ''timestamp'') bind) (\<lambda>t.
     and_then (bind trader_pubkey) (\<lambda>tp.
     and_then (bind txType) (\<lambda>ty.
     and_then (bind bonding_curve_key) (\<lambda>bk.
       Inr \<lparr>tx_id = 0, tx_mint = m, tx_timestamp = t, traderPublicKey = tp, tx_type = ty,
            token_amount = SReal (f_token_amount f), sol_amount = SReal (f_sol_amount f),
            new_token_balance = SReal (f_new_token_balance f), bondingCurveKey = bk,
            vTokensInBondingCurve = SReal (f_v_tokens_bc f),
            vSolInBondingCurve = SReal (f_v_sol_bc f),
            marketCapSol = SReal (f_market_cap_sol f)\<rparr>)))))"

text \<open>
  The block of \<^verbatim>\<open>if tx_type == 'create'\<close> (lines 233-255). The cursor of the insert is
  not looked at.
\<close>

definition create_block :: "(string \<times> json) list \<Rightarrow> state \<Rightarrow> pyerror option \<times> state" where
  "create_block data s =
     (case token_params data of
        Inl e \<Rightarrow> (Some e, s)
      | Inr row \<Rightarrow>
          (let s1 = snd (insert_or_ignore_token row s) in
           case subscript data ''mint'' of
             Inl e \<Rightarrow> (Some e, s1)
           | Inr m \<Rightarrow>
               (None, (subscribe_token m s1)\<lparr>token_creations := token_creations s1 + 1\<rparr>)))"

text \<open>The block of \<^verbatim>\<open>if tx_type in ('create', 'buy', 'sell')\<close> (lines 258-286).\<close>

definition trade_block ::
  "db_conn \<Rightarrow> (string \<times> json) list \<Rightarrow> json \<Rightarrow> json \<Rightarrow> json \<Rightarrow> floats \<Rightarrow> state
     \<Rightarrow> pyerror option \<times> state" where
  "trade_block db data txType trader_pubkey bonding_curve_key f s =
     (case and_then (raw_tx_params data txType trader_pubkey bonding_curve_key f)
             (\<lambda>row. insert_raw_tx db row s) of
        Inl e \<Rightarrow> (Some e, s)
      | Inr s1 \<Rightarrow>
          (None,
           if txType \<in> set [JStr ''buy'', JStr ''sell'']
           then s1\<lparr>processed_txs := processed_txs s1 + 1\<rparr> else s1))"

text \<open>
  The body of the inner \<^verbatim>\<open>try\<close> of \<^verbatim>\<open>main\<close> for a message that \<^verbatim>\<open>json.loads\<close> decoded,
  received at \<open>receive_time\<close>. The result is the exception that ended the body, if one
  did, and the state it left. Assigning \<^verbatim>\<open>data['timestamp']\<close> raises on everything but a
  dict. \<^verbatim>\<open>signature\<close>, \<^verbatim>\<open>pool\<close> and \<^verbatim>\<open>uri\<close> are read with \<^verbatim>\<open>data.get\<close>, which
  cannot raise, and are not used.
\<close>

definition main_iteration ::
  "(string \<Rightarrow> real option) \<Rightarrow> int \<Rightarrow> json \<Rightarrow> state \<Rightarrow> pyerror option \<times> state" where
  "main_iteration float_of_str receive_time message s =
     (case message of
        JObj items \<Rightarrow>
          (let data = (''timestamp'', JInt receive_time) # items in
           if \<not> (has_key data ''mint'' \<and> has_key data ''txType'') then (None, s)
           else
             (let trader_pubkey = dict_get data ''traderPublicKey'' JNull in
              case and_then (subscript data ''txType'') (\<lambda>txType.
                   and_then (extract_floats float_of_str data) (\<lambda>f. Inr (txType, f))) of
                Inl e \<Rightarrow> (Some e, s)
              | Inr (txType, f) \<Rightarrow>
                  (let bonding_curve_key = dict_get data ''bondingCurveKey'' JNull;
                       db = aiosqlite_connect
                   in then_do
                        (if txType = JStr ''create'' then create_block data s else (None, s))
                        (\<lambda>s1.
                           if txType \<in> set [JStr ''create'', JStr ''buy'', JStr ''sell'']
                           then trade_block db data txType trader_pubkey bonding_curve_key f s1
                           else (None, s1)))))
      | _ \<Rightarrow> (Some TypeError, s))"

subsection \<open>The loop of \<^verbatim>\<open>main\<close> (lines 189-294)\<close>

text \<open>
  What can happen next while \<^verbatim>\<open>main\<close> runs: \<^verbatim>\<open>recv\<close> returns a text that decodes to a
  JSON value; it returns a text that does not decode; it raises \<^verbatim>\<open>ConnectionClosed\<close> and
  \<^verbatim>\<open>connect\<close> runs with the given outcomes; or a \<^verbatim>\<open>subscription_handler\<close> task gets its
  turn and makes a pass over the queue.
\<close>

datatype event =
    Recv int json
  | RecvUndecodable
  | RecvClosed "attempt list"
  | HandlerPass bool

text \<open>
  Every exception of an iteration is caught (lines 288-294) and the loop goes on with the
  state the iteration left. The call of \<^verbatim>\<open>connect\<close> at line 290 stands in an \<^verbatim>\<open>except\<close>
  clause, so what it raises is caught by none of the clauses of that \<^verbatim>\<open>try\<close>, and the
  outer one (line 296) catches \<^verbatim>\<open>KeyboardInterrupt\<close> only: it ends \<^verbatim>\<open>main\<close>. The result is
  \<open>Some (None, s)\<close> when the events are through and the loop goes on from \<open>s\<close>,
  \<open>Some (Some e, s)\<close> when \<^verbatim>\<open>main\<close> ended with the exception \<open>e\<close>, and \<open>None\<close> when a
  \<^verbatim>\<open>connect\<close> is still retrying at the end of its outcomes.
\<close>

fun run ::
  "(string \<Rightarrow> real option) \<Rightarrow> event list \<Rightarrow> state \<Rightarrow> (pyerror option \<times> state) option" where
  "run float_of_str [] s = Some (None, s)"
| "run float_of_str (Recv t message # es) s =
     run float_of_str es (snd (main_iteration float_of_str t message s))"
| "run float_of_str (RecvUndecodable # es) s = run float_of_str es s"
| "run float_of_str (RecvClosed as # es) s =
     (case connect as s of
        None \<Rightarrow> None
      | Some (Some e, s') \<Rightarrow> Some (Some e, s')
      | Some (None, s') \<Rightarrow> run float_of_str es s')"
| "run float_of_str (HandlerPass ok # es) s = run float_of_str es (subscription_handler ok s)"

text \<open>
  \<^verbatim>\<open>main\<close> up to its loop (lines 191-203), then the loop. The tables start as the
  database file holds them when the process starts. The first \<^verbatim>\<open>connect\<close> (line 194) is
  outside every \<^verbatim>\<open>try\<close>.
\<close>

definition main ::
  "(string \<Rightarrow> real option) \<Rightarrow> token_row list \<Rightarrow> raw_tx list \<Rightarrow> attempt list \<Rightarrow> event list
     \<Rightarrow> (pyerror option \<times> state) option" where
  "main float_of_str rows txs as es =
     (case connect as (initialize_database (init_state\<lparr>tokens := rows, raw_txs := txs\<rparr>)) of
        None \<Rightarrow> None
      | Some (Some e, s) \<Rightarrow> Some (Some e, s)
      | Some (None, s) \<Rightarrow> run float_of_str es s)"

subsection \<open>Notions used in the statements\<close>

text \<open>A decoded message lacks a field when it is not a dict or the dict has no such key.\<close>

definition lacks_field :: "json \<Rightarrow> string \<Rightarrow> bool" where
  "lacks_field message k = (case message of JObj items \<Rightarrow> \<not> has_key items k | _ \<Rightarrow> True)"

text \<open>The number of subscribe commands for the id \<open>m\<close> put on the wire so far.\<close>

definition commands_for :: "json \<Rightarrow> state \<Rightarrow> nat" where
  "commands_for m s = length (filter (\<lambda>kc. snd kc = SubscribeTokenTrade m) (sent s))"

text \<open>
  The sleeps of \<open>n\<close> failed attempts in a row, when the loop holds the delay \<open>d\<close> and the
  counter reads \<open>a\<close>: first \<open>d\<close>, then what lines 116-120 compute after each failure
  (while \<^verbatim>\<open>math.exp\<close> returns).
\<close>

fun waits :: "nat \<Rightarrow> real \<Rightarrow> nat \<Rightarrow> real list" where
  "waits 0 d a = []"
| "waits (Suc n) d a =
     d # waits n (min MAX_RECONNECT_DELAY (INITIAL_RECONNECT_DELAY * exp (real (Suc a)))) (Suc a)"

text \<open>
  The creation message of the specification's scenario,
  \<^verbatim>\<open>{"mint":"ABC","txType":"create","name":"Foo","symbol":"FOO","initialBuy":5}\<close>.
\<close>

definition scenario_create :: json where
  "scenario_create =
     JObj [(''mint'', JStr ''ABC''), (''txType'', JStr ''create''), (''name'', JStr ''Foo''),
           (''symbol'', JStr ''FOO''), (''initialBuy'', JInt 5)]"

section \<open>Basic facts\<close>

lemmas message_defs =
  main_iteration_def has_key_def subscript_def dict_get_def and_then_def then_do_def
  extract_floats_def float_field_def py_or_def create_block_def token_params_def
  trade_block_def raw_tx_params_def insert_or_ignore_token_def insert_raw_tx_def
  subscribe_token_def aiosqlite_connect_def

lemmas connect_defs =
  connect_def try_connect_def initial_subscriptions_def send_def then_do_def
  subscribe_token_def

subsection \<open>Messages\<close>

lemma DBL_OVERFLOW_pos [simp]: "0 < DBL_OVERFLOW"
  by (simp add: DBL_OVERFLOW_def)

lemma main_iteration_missing:
  "\<not> has_key items ''mint'' \<or> \<not> has_key items ''txType'' \<Longrightarrow>
   main_iteration float_of_str t (JObj items) s = (None, s)"
  by (auto simp add: main_iteration_def has_key_def)

lemma main_iteration_floats_fail:
  assumes "extract_floats float_of_str ((''timestamp'', JInt t) # items) = Inl e"
  shows "snd (main_iteration float_of_str t (JObj items) s) = s"
  using assms
  by (simp add: main_iteration_def and_then_def Let_def split: sum.splits)

lemma extract_floats_fails:
  assumes "k \<in> set [''tokenAmount'', ''solAmount'', ''newTokenBalance'',
                     ''vTokensInBondingCurve'', ''vSolInBondingCurve'', ''marketCapSol'']"
      and "float_field float_of_str data k = Inl e"
  shows "\<exists>e'. extract_floats float_of_str data = Inl e'"
  using assms
  by (auto simp add: extract_floats_def and_then_def split: sum.splits)

text \<open>
  A message whose \<^verbatim>\<open>tokenAmount\<close>, \<^verbatim>\<open>solAmount\<close>, \<^verbatim>\<open>newTokenBalance\<close>,
  \<^verbatim>\<open>vTokensInBondingCurve\<close>, \<^verbatim>\<open>vSolInBondingCurve\<close> or \<^verbatim>\<open>marketCapSol\<close> does not coerce
  leaves the state as it was: lines 221-227 run before the database is opened.
\<close>

lemma uncoercible_field_drops_message:
  assumes "k \<in> set [''tokenAmount'', ''solAmount'', ''newTokenBalance'',
                     ''vTokensInBondingCurve'', ''vSolInBondingCurve'', ''marketCapSol'']"
      and "float_field float_of_str ((''timestamp'', JInt t) # items) k = Inl e"
  shows "snd (main_iteration float_of_str t (JObj items) s) = s"
proof -
  from extract_floats_fails[OF assms] obtain e'
    where "extract_floats float_of_str ((''timestamp'', JInt t) # items) = Inl e'" ..
  then show ?thesis by (rule main_iteration_floats_fail)
qed

text \<open>A coerced field that is absent or null is \<open>0\<close>.\<close>

lemma float_field_default:
  "map_of data k = None \<or> map_of data k = Some JNull \<Longrightarrow> float_field float_of_str data k = Inr 0"
  by (auto simp add: float_field_def dict_get_def py_or_def)

text \<open>A creation message whose six fields coerce runs both blocks.\<close>

lemma main_iteration_create:
  assumes "map_of items ''mint'' = Some m"
      and "map_of items ''txType'' = Some (JStr ''create'')"
      and "extract_floats float_of_str ((''timestamp'', JInt t) # items) = Inr f"
  shows "main_iteration float_of_str t (JObj items) s =
         then_do (create_block ((''timestamp'', JInt t) # items) s)
           (trade_block aiosqlite_connect ((''timestamp'', JInt t) # items) (JStr ''create'')
              (dict_get items ''traderPublicKey'' JNull)
              (dict_get items ''bondingCurveKey'' JNull) f)"
  using assms
  by (simp add: main_iteration_def has_key_def subscript_def and_then_def dict_get_def Let_def)

lemma token_params_ok:
  assumes "map_of items ''mint'' = Some (JStr m)"
      and "- (2 ^ 63) \<le> t" and "t < 2 ^ 63"
      and "bind (dict_get items ''initialBuy'' (JInt 0)) = Inr ib"
      and "bind (dict_get items ''name'' (JStr '''')) = Inr nm"
      and "bind (dict_get items ''symbol'' (JStr '''')) = Inr sy"
  shows "token_params ((''timestamp'', JInt t) # items) =
         Inr \<lparr>mint = SText m, timestamp = SInt t, initial_sol_liquidity = ib, name = nm,
              symbol = sy\<rparr>"
  using assms
  by (simp add: token_params_def subscript_def and_then_def dict_get_def)

lemma raw_tx_params_ok:
  assumes "map_of items ''mint'' = Some (JStr m)"
      and "- (2 ^ 63) \<le> t" and "t < 2 ^ 63"
      and "bind tp = Inr tp'"
      and "bind bk = Inr bk'"
  shows "raw_tx_params ((''timestamp'', JInt t) # items) (JStr ty) tp bk f =
         Inr \<lparr>tx_id = 0, tx_mint = SText m, tx_timestamp = SInt t, traderPublicKey = tp',
              tx_type = SText ty,
              token_amount = SReal (f_token_amount f), sol_amount = SReal (f_sol_amount f),
              new_token_balance = SReal (f_new_token_balance f), bondingCurveKey = bk',
              vTokensInBondingCurve = SReal (f_v_tokens_bc f),
              vSolInBondingCurve = SReal (f_v_sol_bc f),
              marketCapSol = SReal (f_market_cap_sol f)\<rparr>"
  using assms
  by (simp add: raw_tx_params_def subscript_def and_then_def)

lemma create_block_ok:
  assumes "map_of items ''mint'' = Some (JStr m)"
      and "token_params ((''timestamp'', JInt t) # items) = Inr row"
  shows "create_block ((''timestamp'', JInt t) # items) s =
         (None, (subscribe_token (JStr m) (snd (insert_or_ignore_token row s)))
                  \<lparr>token_creations := token_creations s + 1\<rparr>)"
  using assms
  by (simp add: create_block_def subscript_def insert_or_ignore_token_def Let_def)

lemma trade_block_create_ok:
  assumes "raw_tx_params data (JStr ''create'') tp bk f = Inr row"
      and "tx_mint row \<noteq> SNull"
  shows "trade_block aiosqlite_connect data (JStr ''create'') tp bk f s =
         (None, s\<lparr>raw_txs := raw_txs s @ [row\<lparr>tx_id := Suc (length (raw_txs s))\<rparr>]\<rparr>)"
  using assms
  by (simp add: trade_block_def and_then_def insert_raw_tx_def aiosqlite_connect_def)

text \<open>
  On a connection that has foreign keys on, the insert of a trade whose \<^verbatim>\<open>mint\<close> is not
  in \<^verbatim>\<open>tokens\<close> is refused.
\<close>

lemma foreign_keys_on_rejects_orphan:
  "tx_mint r \<notin> set (map mint (tokens s)) \<Longrightarrow>
   insert_raw_tx \<lparr>foreign_keys = True\<rparr> r s = Inl IntegrityError"
  by (simp add: insert_raw_tx_def)

subsection \<open>Connecting\<close>

lemma try_connect_ConnectRaises: "try_connect ConnectRaises s = (Some OSError, s)"
  by (simp add: try_connect_def)

lemma fold_subscribe_token:
  "fold subscribe_token ms s = s\<lparr>pending_subscriptions := pending_subscriptions s @ ms\<rparr>"
  by (induction ms arbitrary: s) (simp_all add: subscribe_token_def)

text \<open>
  An attempt that goes through: a new connection, the counter at zero, the command for the
  creation stream on the new connection, every \<^verbatim>\<open>mint\<close> of \<^verbatim>\<open>tokens\<close> on the queue and
  one more handler task. \<^verbatim>\<open>active_tokens\<close> is as it was.
\<close>

lemma try_connect_Succeeds:
  "try_connect Succeeds s =
     (None, s\<lparr>conn := Some (case conn s of None \<Rightarrow> 1 | Some k \<Rightarrow> Suc k),
              reconnect_attempts := 0,
              sent := sent s @
                [(case conn s of None \<Rightarrow> 1 | Some k \<Rightarrow> Suc k, SubscribeNewToken)],
              pending_subscriptions :=
                pending_subscriptions s @ map (\<lambda>row. py_of_sql (mint row)) (tokens s),
              handler_tasks := Suc (handler_tasks s)\<rparr>)"
  by (simp add: try_connect_def initial_subscriptions_def send_def then_do_def
        fold_subscribe_token)

lemma try_connect_returns:
  "try_connect a s = (None, s') \<Longrightarrow> reconnect_attempts s' = 0"
  by (auto simp add: try_connect_def initial_subscriptions_def send_def then_do_def
        fold_subscribe_token split: if_splits sum.splits option.splits)

lemma connect_loop_resets_counter:
  "connect_loop as d s = Some (None, s') \<Longrightarrow> reconnect_attempts s' = 0"
proof (induction as arbitrary: d s)
  case Nil
  then show ?case by simp
next
  case (Cons a as)
  obtain r s1 where t: "try_connect a s = (r, s1)" by (cases "try_connect a s")
  show ?case
  proof (cases r)
    case None
    with Cons.prems t have "s' = s1" by simp
    with t None show ?thesis by (simp add: try_connect_returns)
  next
    case (Some e)
    with Cons.prems t show ?thesis
      by (auto simp add: Let_def split: sum.splits dest: Cons.IH)
  qed
qed

text \<open>
  Failures of \<^verbatim>\<open>websockets.connect\<close> in a row, as long as the counter stays within what
  \<^verbatim>\<open>math.exp\<close> takes.
\<close>

lemma connect_loop_failures:
  "reconnect_attempts s + n \<le> 709 \<Longrightarrow>
   connect_loop (replicate n ConnectRaises @ as) d s =
   connect_loop as
     (if n = 0 then d
      else min MAX_RECONNECT_DELAY
             (INITIAL_RECONNECT_DELAY * exp (real (reconnect_attempts s + n))))
     (s\<lparr>slept := slept s @ waits n d (reconnect_attempts s),
        reconnect_attempts := reconnect_attempts s + n\<rparr>)"
proof (induction n arbitrary: d s)
  case 0
  show ?case by simp
next
  case (Suc n)
  let ?s = "s\<lparr>slept := slept s @ [d], reconnect_attempts := Suc (reconnect_attempts s)\<rparr>"
  from Suc.prems have "reconnect_attempts ?s + n \<le> 709" by simp
  from Suc.IH[OF this] Suc.prems show ?case
    by (simp add: try_connect_ConnectRaises math_exp_def Let_def)
qed

text \<open>The failure after which the counter reads 710 ends \<^verbatim>\<open>connect\<close>.\<close>

lemma connect_loop_overflow:
  "reconnect_attempts s = 709 \<Longrightarrow>
   connect_loop (ConnectRaises # as) d s =
   Some (Some OverflowError, s\<lparr>slept := slept s @ [d], reconnect_attempts := 710\<rparr>)"
  by (simp add: try_connect_ConnectRaises math_exp_def)

lemma length_waits: "length (waits n d a) = n"
  by (induction n arbitrary: d a) simp_all

lemma waits_nth:
  "k < n \<Longrightarrow> waits n d a ! k =
     (if k = 0 then d
      else min MAX_RECONNECT_DELAY (INITIAL_RECONNECT_DELAY * exp (real (a + k))))"
proof (induction n arbitrary: d a k)
  case 0
  then show ?case by simp
next
  case (Suc n)
  then show ?case by (cases k) auto
qed

lemma waits_eq_map0:
  "waits n d a =
     map (\<lambda>k. if k = 0 then d
               else min MAX_RECONNECT_DELAY (INITIAL_RECONNECT_DELAY * exp (real (a + k))))
       [0..<n]"
  by (rule nth_equalityI) (simp_all add: length_waits waits_nth)

lemma waits_snoc:
  "waits (Suc n) d a =
     waits n d a @
       [if n = 0 then d
        else min MAX_RECONNECT_DELAY (INITIAL_RECONNECT_DELAY * exp (real (a + n)))]"
  by (simp add: waits_eq_map0)

text \<open>
  With the configured delays the first sleep fits the formula too, the counter reading
  zero.
\<close>

lemma waits_by_counter:
  "waits n INITIAL_RECONNECT_DELAY 0 =
     map (\<lambda>k. min MAX_RECONNECT_DELAY (INITIAL_RECONNECT_DELAY * exp (real k))) [0..<n]"
  unfolding waits_eq_map0
  by (rule map_cong) (simp_all add: INITIAL_RECONNECT_DELAY_def MAX_RECONNECT_DELAY_def)

text \<open>Bounds on powers of \<open>e\<close>: \<open>e\<^sup>4 < 60 \<le> e\<^sup>5\<close>.\<close>

lemma exp_5_lower: "(60::real) \<le> exp 5"
proof -
  have "(1 + 5 / of_nat 16) ^ 16 \<le> exp (5::real)"
    by (rule exp_ge_one_plus_x_over_n_power_n) simp_all
  moreover have "(60::real) \<le> (1 + 5 / of_nat 16) ^ 16"
    by (simp add: power_divide)
  ultimately show ?thesis by linarith
qed

lemma exp_4_upper: "exp 4 < (60::real)"
proof -
  have "(1 - 4 / of_nat 128) ^ 128 \<le> exp (- (4::real))"
    by (rule exp_ge_one_minus_x_over_n_power_n) simp_all
  moreover have "(1 / 60::real) < (1 - 4 / of_nat 128) ^ 128"
    by (simp add: power_divide)
  ultimately have "1 / 60 < exp (- (4::real))" by linarith
  then have "1 / 60 < 1 / exp (4::real)"
    by (simp add: exp_minus inverse_eq_divide)
  then show ?thesis by (simp add: field_simps)
qed

text \<open>
  The schedule by the counter: \<^verbatim>\<open>connect\<close> entered with the counter at zero,
  \<^verbatim>\<open>websockets.connect\<close> raising \<open>n\<close> times in a row, at most 709 times, and then going
  through. \<^verbatim>\<open>connect\<close> returns; the sleep taken while the counter reads \<open>k\<close> is
  \<open>min(maxDelay, initialDelay * e^k)\<close>, for \<open>k\<close> from 0 to \<open>n - 1\<close>; the counter is zero
  at the return.
\<close>

lemma backoff_by_counter:
  assumes "reconnect_attempts s = 0"
      and "n \<le> 709"
  shows "\<exists>s'. connect (replicate n ConnectRaises @ [Succeeds]) s = Some (None, s')
           \<and> slept s' = slept s @
                map (\<lambda>k. min MAX_RECONNECT_DELAY (INITIAL_RECONNECT_DELAY * exp (real k)))
                  [0..<n]
           \<and> reconnect_attempts s' = 0"
proof -
  let ?sn = "s\<lparr>slept := slept s @ waits n INITIAL_RECONNECT_DELAY (reconnect_attempts s),
               reconnect_attempts := reconnect_attempts s + n\<rparr>"
  from assms have "reconnect_attempts s + n \<le> 709" by simp
  then have "connect (replicate n ConnectRaises @ [Succeeds]) s =
             Some (None, snd (try_connect Succeeds ?sn))"
    unfolding connect_def by (simp add: connect_loop_failures try_connect_Succeeds)
  moreover have "slept (snd (try_connect Succeeds ?sn)) =
                 slept s @ waits n INITIAL_RECONNECT_DELAY 0"
    using assms(1) by (simp add: try_connect_Succeeds)
  moreover have "reconnect_attempts (snd (try_connect Succeeds ?sn)) = 0"
    by (simp add: try_connect_Succeeds)
  ultimately show ?thesis
    by (simp add: waits_by_counter)
qed

text \<open>
  The examples of the schedule: with the counter at 1 the sleep is \<open>e\<close>, at 4 it is
  \<open>e\<^sup>4\<close>, at 5 it is the cap.
\<close>

lemma backoff_examples:
  "min MAX_RECONNECT_DELAY (INITIAL_RECONNECT_DELAY * exp (real 1)) = exp 1
   \<and> min MAX_RECONNECT_DELAY (INITIAL_RECONNECT_DELAY * exp (real 4)) = exp 4
   \<and> min MAX_RECONNECT_DELAY (INITIAL_RECONNECT_DELAY * exp (real 5)) = 60"
proof -
  have "exp (1::real) \<le> 3" by (rule exp_le)
  then show ?thesis
    using exp_4_upper exp_5_lower
    by (simp add: INITIAL_RECONNECT_DELAY_def MAX_RECONNECT_DELAY_def)
qed

text \<open>The 710th failure in a row ends \<^verbatim>\<open>connect\<close> with the exception of \<^verbatim>\<open>math.exp\<close>.\<close>

lemma connect_overflow:
  assumes "reconnect_attempts s = 0"
  shows "connect (replicate 710 ConnectRaises @ as) s =
         Some (Some OverflowError,
               s\<lparr>slept := slept s @ waits 710 INITIAL_RECONNECT_DELAY 0,
                 reconnect_attempts := 710\<rparr>)"
proof -
  let ?s = "s\<lparr>slept := slept s @ waits 709 INITIAL_RECONNECT_DELAY (reconnect_attempts s),
              reconnect_attempts := reconnect_attempts s + 709\<rparr>"
  let ?d = "min MAX_RECONNECT_DELAY
              (INITIAL_RECONNECT_DELAY * exp (real (reconnect_attempts s + 709)))"
  have split: "replicate 710 ConnectRaises @ as =
               replicate 709 ConnectRaises @ (ConnectRaises # as)"
    using replicate_add[of 709 1 ConnectRaises] by simp
  have w: "waits 710 INITIAL_RECONNECT_DELAY 0 =
           waits 709 INITIAL_RECONNECT_DELAY 0 @
             [min MAX_RECONNECT_DELAY (INITIAL_RECONNECT_DELAY * exp (real (709::nat)))]"
    using waits_snoc[of 709 INITIAL_RECONNECT_DELAY 0] by simp
  from assms have "reconnect_attempts s + 709 \<le> 709" by simp
  then have "connect_loop (replicate 709 ConnectRaises @ (ConnectRaises # as))
               INITIAL_RECONNECT_DELAY s =
             connect_loop (ConnectRaises # as) ?d ?s"
    by (simp add: connect_loop_failures)
  also have "\<dots> = Some (Some OverflowError,
                       ?s\<lparr>slept := slept ?s @ [?d], reconnect_attempts := 710\<rparr>)"
    by (rule connect_loop_overflow) (simp add: assms)
  finally show ?thesis
    unfolding connect_def split w using assms by simp
qed

subsection \<open>The handler\<close>

lemma commands_for_pending [simp]:
  "commands_for m (s\<lparr>pending_subscriptions := q\<rparr>) = commands_for m s"
  by (simp add: commands_for_def)

text \<open>No command goes out for an id that is in \<^verbatim>\<open>active_tokens\<close>.\<close>

lemma drain_subscribed:
  "m \<in> active_tokens s \<Longrightarrow> commands_for m (drain ok q s) = commands_for m s"
proof (induction q arbitrary: s)
  case Nil
  then show ?case by simp
next
  case (Cons x q)
  show ?case
  proof (cases "x \<in> active_tokens s")
    case True
    with Cons show ?thesis by simp
  next
    case False
    with Cons.prems have neq: "x \<noteq> m" by auto
    show ?thesis
    proof (cases "send ok (SubscribeTokenTrade x) s")
      case (Inl e)
      with False show ?thesis by simp
    next
      case (Inr s')
      then have s': "active_tokens s' = active_tokens s" "commands_for m s' = commands_for m s"
        using neq by (auto simp add: send_def commands_for_def split: option.splits if_splits)
      have "commands_for m (drain ok q (s'\<lparr>active_tokens := insert x (active_tokens s')\<rparr>))
            = commands_for m (s'\<lparr>active_tokens := insert x (active_tokens s')\<rparr>)"
        by (rule Cons.IH) (simp add: s' Cons.prems)
      with False Inr s' show ?thesis by (simp add: commands_for_def)
    qed
  qed
qed

lemma drain_keeps_subscribed:
  "m \<in> active_tokens s \<Longrightarrow> m \<in> active_tokens (drain ok q s)"
proof (induction q arbitrary: s)
  case Nil
  then show ?case by simp
next
  case (Cons x q)
  show ?case
  proof (cases "send ok (SubscribeTokenTrade x) s")
    case (Inl e)
    with Cons show ?thesis by simp
  next
    case (Inr s')
    then have "active_tokens s' = active_tokens s"
      by (auto simp add: send_def split: option.splits if_splits)
    with Cons Inr show ?thesis by simp
  qed
qed

text \<open>
  While the sends go through, an id on the queue that is not in \<^verbatim>\<open>active_tokens\<close> gets
  one command, however often it is on the queue, and is in the set afterwards.
\<close>

lemma drain_new:
  "conn s = Some k \<Longrightarrow> m \<notin> active_tokens s \<Longrightarrow> m \<in> set q \<Longrightarrow>
   commands_for m (drain True q s) = Suc (commands_for m s)
   \<and> m \<in> active_tokens (drain True q s)"
proof (induction q arbitrary: s)
  case Nil
  then show ?case by simp
next
  case (Cons x q)
  let ?s' = "s\<lparr>sent := sent s @ [(k, SubscribeTokenTrade x)],
                active_tokens := insert x (active_tokens s)\<rparr>"
  show ?case
  proof (cases "x \<in> active_tokens s")
    case True
    with Cons.prems have "m \<in> set q" by auto
    with Cons True show ?thesis by simp
  next
    case False
    then have step: "drain True (x # q) s = drain True q ?s'"
      using Cons.prems by (simp add: send_def)
    show ?thesis
    proof (cases "x = m")
      case True
      have "commands_for m (drain True q ?s') = commands_for m ?s'"
        by (rule drain_subscribed) (simp add: True)
      moreover have "commands_for m ?s' = Suc (commands_for m s)"
        by (simp add: commands_for_def True)
      moreover have "m \<in> active_tokens (drain True q ?s')"
        by (rule drain_keeps_subscribed) (simp add: True)
      ultimately show ?thesis unfolding step by simp
    next
      case neq: False
      from neq Cons.prems
      have a: "m \<in> set q" "m \<notin> active_tokens ?s'" "conn ?s' = Some k"
        by auto
      have "commands_for m (drain True q ?s') = Suc (commands_for m ?s')
        \<and> m \<in> active_tokens (drain True q ?s')"
        using Cons.IH[of ?s'] a by blast
      moreover have "commands_for m ?s' = commands_for m s"
        using neq by (simp add: commands_for_def)
      ultimately show ?thesis unfolding step by simp
    qed
  qed
qed

text \<open>
  After a connection is established and a handler has made its pass, an id of the table
  that was not in \<^verbatim>\<open>active_tokens\<close> has got its one command, and an id that was in
  \<^verbatim>\<open>active_tokens\<close> has got none, whichever connection it was subscribed on.
\<close>

lemma replay_subscribes_unsubscribed_id:
  assumes "row \<in> set (tokens s)"
      and "py_of_sql (mint row) \<notin> active_tokens s"
  shows "commands_for (py_of_sql (mint row))
           (subscription_handler True (snd (try_connect Succeeds s))) =
         Suc (commands_for (py_of_sql (mint row)) s)"
proof -
  let ?s' = "snd (try_connect Succeeds s)"
  let ?m = "py_of_sql (mint row)"
  have k: "conn ?s' = Some (case conn s of None \<Rightarrow> 1 | Some k \<Rightarrow> Suc k)"
    by (simp add: try_connect_Succeeds)
  have n: "?m \<notin> active_tokens ?s'"
    using assms(2) by (simp add: try_connect_Succeeds)
  have q: "?m \<in> set (pending_subscriptions ?s')"
    using assms(1) by (simp add: try_connect_Succeeds)
  have c: "commands_for ?m ?s' = commands_for ?m s"
    by (simp add: try_connect_Succeeds commands_for_def)
  from drain_new[OF k n q] c show ?thesis
    by (simp add: subscription_handler_def) (simp add: try_connect_Succeeds)
qed

lemma replay_skips_subscribed_id:
  assumes "m \<in> active_tokens s"
  shows "commands_for m (subscription_handler ok (snd (try_connect Succeeds s))) =
         commands_for m s"
proof -
  let ?s' = "snd (try_connect Succeeds s)"
  have "m \<in> active_tokens ?s'"
    using assms by (simp add: try_connect_Succeeds)
  then have "commands_for m (drain ok q ?s') = commands_for m ?s'" for q
    by (rule drain_subscribed)
  moreover have "commands_for m ?s' = commands_for m s"
    by (simp add: try_connect_Succeeds commands_for_def)
  ultimately show ?thesis
    by (simp add: subscription_handler_def)
qed

subsection \<open>The counter between calls of \<^verbatim>\<open>connect\<close>\<close>

lemma create_block_reconnect_attempts:
  "reconnect_attempts (snd (create_block data s)) = reconnect_attempts s"
  by (simp add: create_block_def insert_or_ignore_token_def subscribe_token_def Let_def
        split: sum.splits)

lemma trade_block_reconnect_attempts:
  "reconnect_attempts (snd (trade_block db data ty tp bk f s)) = reconnect_attempts s"
  by (auto simp add: trade_block_def and_then_def insert_raw_tx_def split: sum.splits)

lemma then_do_reconnect_attempts:
  assumes "reconnect_attempts (snd r) = n"
      and "\<And>s1. reconnect_attempts s1 = n \<Longrightarrow> reconnect_attempts (snd (g s1)) = n"
  shows "reconnect_attempts (snd (then_do r g)) = n"
  using assms by (cases r) (auto simp add: then_do_def split: option.splits)

lemma main_iteration_reconnect_attempts:
  "reconnect_attempts (snd (main_iteration float_of_str t message s)) = reconnect_attempts s"
proof (cases message)
  case (JObj items)
  show ?thesis
    unfolding JObj main_iteration_def
    by (auto simp add: Let_def create_block_reconnect_attempts trade_block_reconnect_attempts
          split: sum.splits intro!: then_do_reconnect_attempts)
qed (simp_all add: main_iteration_def)

lemma drain_reconnect_attempts:
  "reconnect_attempts (drain ok q s) = reconnect_attempts s"
proof (induction q arbitrary: s)
  case Nil
  show ?case by simp
next
  case (Cons x q)
  show ?case
  proof (cases "send ok (SubscribeTokenTrade x) s")
    case (Inl e)
    with Cons show ?thesis by simp
  next
    case (Inr s')
    then have "reconnect_attempts s' = reconnect_attempts s"
      by (auto simp add: send_def split: option.splits if_splits)
    with Cons Inr show ?thesis by simp
  qed
qed

text \<open>
  The counter is zero whenever the loop of \<^verbatim>\<open>main\<close> is between two events, so every call
  of \<^verbatim>\<open>connect\<close> starts from zero.
\<close>

lemma run_reconnect_attempts:
  "reconnect_attempts s = 0 \<Longrightarrow> run float_of_str es s = Some (None, s') \<Longrightarrow>
   reconnect_attempts s' = 0"
proof (induction float_of_str es s rule: run.induct)
  case (1 float_of_str s)
  then show ?case by simp
next
  case (2 float_of_str t message es s)
  then show ?case by (simp add: main_iteration_reconnect_attempts)
next
  case (3 float_of_str es s)
  then show ?case by simp
next
  case (4 float_of_str as es s)
  from "4.prems"(2) obtain b
    where c: "connect as s = Some (None, b)"
      and r: "run float_of_str es b = Some (None, s')"
    by (auto split: option.splits)
  from c have "reconnect_attempts b = 0"
    unfolding connect_def by (rule connect_loop_resets_counter)
  with "4.IH" c r show ?case by blast
next
  case (5 float_of_str ok es s)
  then show ?case by (simp add: subscription_handler_def drain_reconnect_attempts)
qed

section \<open>The claims\<close>

subsection \<open>C1: subscriptions after a reconnect\<close>

text \<open>
  Claim C1: every successful (re)connection clears the subscribed set and rebuilds it from
  the store: a subscribe command for the creation stream and one subscribe command per
  entity id of the store go out on the new connection, before a trade message received
  on it is stored.

  The run below shows what the program does instead. It connects, receives the creation
  of \<^verbatim>\<open>ABC\<close>, lets the handler subscribe it, loses the connection, connects again and
  lets the handler make its pass. On the second connection only the command for the
  creation stream goes out: \<^verbatim>\<open>connect\<close> never empties \<^verbatim>\<open>active_tokens\<close>, so the handler
  finds \<^verbatim>\<open>ABC\<close> there and drops it from the queue without a command (line 128), although
  \<^verbatim>\<open>initial_subscriptions\<close> is documented to re-subscribe every token of the table
  (\<open>replay_skips_subscribed_id\<close> is the general fact, \<open>replay_subscribes_unsubscribed_id\<close>
  what happens to the ids that are not in the set, as on a first connection).
\<close>

theorem reconnect_sends_no_token_subscription:
  "map_option (\<lambda>(e, s). (e, sent s, active_tokens s, pending_subscriptions s, conn s,
                          map mint (tokens s)))
     (main float_of_str [] [] [Succeeds]
        [Recv 1700000000 scenario_create, HandlerPass True,
         RecvClosed [Succeeds], HandlerPass True]) =
   Some (None,
         [(1, SubscribeNewToken), (1, SubscribeTokenTrade (JStr ''ABC'')),
          (2, SubscribeNewToken)],
         {JStr ''ABC''}, [], Some 2, [SText ''ABC''])"
  by (simp add: main_def initialize_database_def connect_defs message_defs init_state_def
        subscription_handler_def scenario_create_def)

subsection \<open>C2: a trade for an unknown id\<close>

text \<open>
  Claim C2: a buy or sell whose entity id is not in the Entities record set is refused by
  the store and no orphan trade row is kept.

  The program stores the row and counts the trade. The pragma of line 46 is set on the
  connection of \<^verbatim>\<open>initialize_database\<close> only; the connection that \<^verbatim>\<open>main\<close> opens for each
  message (line 230) has SQLite's default, under which the reference of \<^verbatim>\<open>raw_txs.mint\<close>
  to \<^verbatim>\<open>tokens\<close> is not checked. (\<open>foreign_keys_on_rejects_orphan\<close> is what the same
  insert does on a connection that has the pragma.)
\<close>

theorem trade_for_unknown_id_is_stored:
  "main_iteration float_of_str 1700000000
     (JObj [(''mint'', JStr ''XYZ''), (''txType'', JStr ''buy''), (''solAmount'', JFloat 1.5)])
     init_state =
   (None,
    init_state\<lparr>raw_txs :=
        [\<lparr>tx_id = 1, tx_mint = SText ''XYZ'', tx_timestamp = SInt 1700000000,
          traderPublicKey = SNull, tx_type = SText ''buy'', token_amount = SReal 0,
          sol_amount = SReal 1.5, new_token_balance = SReal 0, bondingCurveKey = SNull,
          vTokensInBondingCurve = SReal 0, vSolInBondingCurve = SReal 0,
          marketCapSol = SReal 0\<rparr>],
      processed_txs := 1\<rparr>)"
  by (simp add: message_defs init_state_def)

subsection \<open>C3: the backoff schedule\<close>

text \<open>
  Claim C3: for every number \<open>n\<close> of failed connection attempts in a row the delay is
  \<open>min(maxDelay, initialDelay * e^n)\<close>, \<open>n\<close> being the attempt count (about \<open>e\<close> at 1, the
  cap of 60 at 5), and the counter goes back to zero when a connection is established.
  A failed attempt is one in which \<^verbatim>\<open>websockets.connect\<close> raises.

  Read by the program's counter this is the schedule of \<^verbatim>\<open>connect\<close> as long as the
  failures in a row are at most 709 (\<open>backoff_by_counter\<close>, \<open>backoff_examples\<close>,
  \<open>connect_loop_resets_counter\<close>). It is not for every \<open>n\<close>: the delay is capped after
  \<^verbatim>\<open>math.exp\<close> has been called (lines 117-120), and at the 710th failure in a row
  \<^verbatim>\<open>math.exp(710)\<close> raises \<^verbatim>\<open>OverflowError\<close> in the \<^verbatim>\<open>except\<close> clause. After its 710th
  sleep \<^verbatim>\<open>connect\<close> does not take 60 as the next delay and retry, it raises, and \<^verbatim>\<open>main\<close>
  ends with it, whatever the attempts after that would have been. After 709 failures a
  success still returns.
\<close>

theorem connect_raises_at_710th_failure:
  "map_option fst (connect (replicate 709 ConnectRaises @ [Succeeds]) init_state) = Some None
   \<and> map_option (\<lambda>(e, s). (e, reconnect_attempts s, length (slept s), conn s))
       (connect (replicate 710 ConnectRaises @ as) init_state) =
     Some (Some OverflowError, 710, 710, None)
   \<and> map_option fst (main float_of_str rows txs (replicate 710 ConnectRaises @ as) es) =
     Some (Some OverflowError)"
proof (intro conjI)
  have z: "reconnect_attempts init_state = 0"
    by (simp add: init_state_def)
  from backoff_by_counter[OF z, of 709]
  show "map_option fst (connect (replicate 709 ConnectRaises @ [Succeeds]) init_state) =
        Some None"
    by auto
  show "map_option (\<lambda>(e, s). (e, reconnect_attempts s, length (slept s), conn s))
          (connect (replicate 710 ConnectRaises @ as) init_state) =
        Some (Some OverflowError, 710, 710, None)"
    by (simp add: connect_overflow[OF z] length_waits) (simp add: init_state_def)
  have "reconnect_attempts
          (initialize_database (init_state\<lparr>tokens := rows, raw_txs := txs\<rparr>)) = 0"
    by (simp add: initialize_database_def init_state_def)
  then show "map_option fst
          (main float_of_str rows txs (replicate 710 ConnectRaises @ as) es) =
        Some (Some OverflowError)"
    by (simp add: main_def connect_overflow)
qed

subsection \<open>C4: a creation message for a new id\<close>

text \<open>
  Claim C4: a creation message with an id that has no Entity row yet produces one Entity
  row with the id, name and symbol of the message, then one Trade Event row with that id
  and kind \<^verbatim>\<open>create\<close>, puts the id on the subscription queue and adds one to the creation
  counter; the trade counter and everything else stay as they were.

  The message is one the two inserts accept: the id, the name and the symbol are strings
  (name and symbol may be absent), the six coerced fields coerce, the initial buy, the
  trader and the bonding-curve key are values SQLite binds, and the receipt time fits 64
  bits.
\<close>

theorem creation_of_unseen_id:
  assumes "map_of items ''mint'' = Some (JStr m)"
      and "map_of items ''txType'' = Some (JStr ''create'')"
      and "SText m \<notin> set (map mint (tokens s))"
      and "extract_floats float_of_str ((''timestamp'', JInt t) # items) = Inr f"
      and "- (2 ^ 63) \<le> t" and "t < 2 ^ 63"
      and "dict_get items ''name'' (JStr '''') = JStr nm"
      and "dict_get items ''symbol'' (JStr '''') = JStr sy"
      and "bind (dict_get items ''initialBuy'' (JInt 0)) = Inr ib"
      and "bind (dict_get items ''traderPublicKey'' JNull) = Inr tp"
      and "bind (dict_get items ''bondingCurveKey'' JNull) = Inr bk"
  shows "main_iteration float_of_str t (JObj items) s =
           (None,
            s\<lparr>tokens := tokens s @
                 [\<lparr>mint = SText m, timestamp = SInt t, initial_sol_liquidity = ib,
                   name = SText nm, symbol = SText sy\<rparr>],
              raw_txs := raw_txs s @
                 [\<lparr>tx_id = Suc (length (raw_txs s)), tx_mint = SText m, tx_timestamp = SInt t,
                   traderPublicKey = tp, tx_type = SText ''create'',
                   token_amount = SReal (f_token_amount f),
                   sol_amount = SReal (f_sol_amount f),
                   new_token_balance = SReal (f_new_token_balance f), bondingCurveKey = bk,
                   vTokensInBondingCurve = SReal (f_v_tokens_bc f),
                   vSolInBondingCurve = SReal (f_v_sol_bc f),
                   marketCapSol = SReal (f_market_cap_sol f)\<rparr>],
              pending_subscriptions := pending_subscriptions s @ [JStr m],
              token_creations := token_creations s + 1\<rparr>)
       \<and> filter (\<lambda>r. mint r = SText m)
            (tokens s @
               [\<lparr>mint = SText m, timestamp = SInt t, initial_sol_liquidity = ib,
                 name = SText nm, symbol = SText sy\<rparr>]) =
           [\<lparr>mint = SText m, timestamp = SInt t, initial_sol_liquidity = ib,
             name = SText nm, symbol = SText sy\<rparr>]"
proof -
  let ?data = "(''timestamp'', JInt t) # items"
  let ?row = "\<lparr>mint = SText m, timestamp = SInt t, initial_sol_liquidity = ib,
               name = SText nm, symbol = SText sy\<rparr>"
  have tok: "token_params ?data = Inr ?row"
    using assms by (intro token_params_ok) simp_all
  have ins: "snd (insert_or_ignore_token ?row s) = s\<lparr>tokens := tokens s @ [?row]\<rparr>"
    using assms(3) by (simp add: insert_or_ignore_token_def)
  have cb: "create_block ?data s =
            (None, s\<lparr>tokens := tokens s @ [?row],
                     pending_subscriptions := pending_subscriptions s @ [JStr m],
                     token_creations := token_creations s + 1\<rparr>)"
    unfolding create_block_ok[OF assms(1) tok] ins by (simp add: subscribe_token_def)
  have raw: "raw_tx_params ?data (JStr ''create'') (dict_get items ''traderPublicKey'' JNull)
               (dict_get items ''bondingCurveKey'' JNull) f =
             Inr \<lparr>tx_id = 0, tx_mint = SText m, tx_timestamp = SInt t, traderPublicKey = tp,
                  tx_type = SText ''create'',
                  token_amount = SReal (f_token_amount f), sol_amount = SReal (f_sol_amount f),
                  new_token_balance = SReal (f_new_token_balance f), bondingCurveKey = bk,
                  vTokensInBondingCurve = SReal (f_v_tokens_bc f),
                  vSolInBondingCurve = SReal (f_v_sol_bc f),
                  marketCapSol = SReal (f_market_cap_sol f)\<rparr>"
    using assms by (intro raw_tx_params_ok) simp_all
  have "main_iteration float_of_str t (JObj items) s =
        then_do (create_block ?data s)
          (trade_block aiosqlite_connect ?data (JStr ''create'')
             (dict_get items ''traderPublicKey'' JNull)
             (dict_get items ''bondingCurveKey'' JNull) f)"
    using assms(1,2,4) by (rule main_iteration_create)
  also have "\<dots> =
           (None,
            s\<lparr>tokens := tokens s @ [?row],
              raw_txs := raw_txs s @
                 [\<lparr>tx_id = Suc (length (raw_txs s)), tx_mint = SText m, tx_timestamp = SInt t,
                   traderPublicKey = tp, tx_type = SText ''create'',
                   token_amount = SReal (f_token_amount f),
                   sol_amount = SReal (f_sol_amount f),
                   new_token_balance = SReal (f_new_token_balance f), bondingCurveKey = bk,
                   vTokensInBondingCurve = SReal (f_v_tokens_bc f),
                   vSolInBondingCurve = SReal (f_v_sol_bc f),
                   marketCapSol = SReal (f_market_cap_sol f)\<rparr>],
              pending_subscriptions := pending_subscriptions s @ [JStr m],
              token_creations := token_creations s + 1\<rparr>)"
    unfolding cb by (simp add: then_do_def trade_block_create_ok[OF raw])
  finally have main: "main_iteration float_of_str t (JObj items) s = \<dots>" .
  have "filter (\<lambda>r. mint r = SText m) (tokens s) = []"
    using assms(3) by (force simp add: filter_empty_conv)
  with main show ?thesis by simp
qed

theorem creation_of_unseen_id_witness:
  "main_iteration (\<lambda>x. None) 1700000000 scenario_create init_state =
     (None,
      init_state\<lparr>tokens :=
          [\<lparr>mint = SText ''ABC'', timestamp = SInt 1700000000,
            initial_sol_liquidity = SInt 5, name = SText ''Foo'', symbol = SText ''FOO''\<rparr>],
        raw_txs :=
          [\<lparr>tx_id = 1, tx_mint = SText ''ABC'', tx_timestamp = SInt 1700000000,
            traderPublicKey = SNull, tx_type = SText ''create'', token_amount = SReal 0,
            sol_amount = SReal 0, new_token_balance = SReal 0, bondingCurveKey = SNull,
            vTokensInBondingCurve = SReal 0, vSolInBondingCurve = SReal 0,
            marketCapSol = SReal 0\<rparr>],
        pending_subscriptions := [JStr ''ABC''],
        token_creations := 1\<rparr>)"
  using creation_of_unseen_id
    [of "[(''mint'', JStr ''ABC''), (''txType'', JStr ''create''), (''name'', JStr ''Foo''),
          (''symbol'', JStr ''FOO''), (''initialBuy'', JInt 5)]"
        "''ABC''" init_state "\<lambda>x. None" 1700000000
        "\<lparr>f_token_amount = 0, f_sol_amount = 0, f_new_token_balance = 0, f_v_tokens_bc = 0,
          f_v_sol_bc = 0, f_market_cap_sol = 0\<rparr>"
        "''Foo''" "''FOO''" "SInt 5" SNull SNull]
  by (simp add: scenario_create_def init_state_def dict_get_def extract_floats_def
        float_field_def py_or_def and_then_def)

subsection \<open>C5: the same id inserted twice\<close>

text \<open>
  Claim C5: when a row with the key of an Entity row just inserted is inserted, nothing
  changes and the insert reports no row (the cursor's \<^verbatim>\<open>rowcount\<close>, which \<^verbatim>\<open>main\<close> does
  not read, is 0); when the key was new before the first insert, the table then holds
  exactly one row with this key, the first one. The key is any value but NULL.
\<close>

theorem insert_same_id_twice:
  assumes "mint r1 \<noteq> SNull"
      and "mint r2 = mint r1"
  shows "insert_or_ignore_token r2 (snd (insert_or_ignore_token r1 s)) =
           (0, snd (insert_or_ignore_token r1 s))
       \<and> (mint r1 \<notin> set (map mint (tokens s)) \<longrightarrow>
            insert_or_ignore_token r1 s = (1, s\<lparr>tokens := tokens s @ [r1]\<rparr>)
          \<and> filter (\<lambda>r. mint r = mint r1)
               (tokens (snd (insert_or_ignore_token r2 (snd (insert_or_ignore_token r1 s))))) =
             [r1])"
proof -
  have "filter (\<lambda>r. mint r = mint r1) (tokens s) = []"
    if "mint r1 \<notin> set (map mint (tokens s))"
    using that by (auto simp add: filter_empty_conv image_iff)
  with assms show ?thesis
    by (simp add: insert_or_ignore_token_def)
qed

theorem insert_same_id_twice_witness:
  "insert_or_ignore_token
     \<lparr>mint = SText ''ABC'', timestamp = SInt 2, initial_sol_liquidity = SInt 0,
      name = SText ''Bar'', symbol = SText ''BAR''\<rparr>
     (snd (insert_or_ignore_token
        \<lparr>mint = SText ''ABC'', timestamp = SInt 1, initial_sol_liquidity = SInt 5,
         name = SText ''Foo'', symbol = SText ''FOO''\<rparr> init_state)) =
   (0, init_state\<lparr>tokens :=
         [\<lparr>mint = SText ''ABC'', timestamp = SInt 1, initial_sol_liquidity = SInt 5,
           name = SText ''Foo'', symbol = SText ''FOO''\<rparr>]\<rparr>)"
  using insert_same_id_twice
    [of "\<lparr>mint = SText ''ABC'', timestamp = SInt 1, initial_sol_liquidity = SInt 5,
          name = SText ''Foo'', symbol = SText ''FOO''\<rparr>"
        "\<lparr>mint = SText ''ABC'', timestamp = SInt 2, initial_sol_liquidity = SInt 0,
          name = SText ''Bar'', symbol = SText ''BAR''\<rparr>" init_state]
  by (simp add: init_state_def insert_or_ignore_token_def)

subsection \<open>C6: no second subscribe command\<close>

text \<open>
  Claim C6 as stated says, among other things, that an id already in the subscribed set
  is never put on the queue again. \<^verbatim>\<open>subscribe_token\<close> does not look at the set: in the
  run below \<^verbatim>\<open>ABC\<close> is subscribed, its creation message arrives a second time, and
  \<^verbatim>\<open>ABC\<close> is on the queue while it is in the set.
\<close>

theorem subscribed_id_is_enqueued_again:
  "map_option (\<lambda>(e, s). (e, active_tokens s, pending_subscriptions s))
     (main (\<lambda>x. None) [] [] [Succeeds]
        [Recv 1700000000 scenario_create, HandlerPass True,
         Recv 1700000001 scenario_create]) =
   Some (None, {JStr ''ABC''}, [JStr ''ABC''])"
  by (simp add: main_def initialize_database_def connect_defs message_defs init_state_def
        subscription_handler_def scenario_create_def)

text \<open>
  Claim C6, amended: the subscribed set is a set, so an id is in it at most once. An id
  that is in it goes on the queue when it is enqueued, and the pass of the handler that
  takes it off sends no command for it. An id that is not in it and is enqueued twice
  before the handler runs gets exactly one command from that pass (the transport taking
  it) and is in the set afterwards. The second part is for the one handler task of a
  first connection: every later \<^verbatim>\<open>connect\<close> starts one more (line 111), and two tasks can
  both be inside a send for the same id before either adds it to the set.
\<close>

theorem dedup_at_drain:
  "(m \<in> active_tokens s \<longrightarrow>
      pending_subscriptions (subscribe_token m s) = pending_subscriptions s @ [m]
    \<and> commands_for m (subscription_handler ok (subscribe_token m s)) = commands_for m s)
   \<and> (m \<notin> active_tokens s \<and> conn s \<noteq> None \<and> handler_tasks s = 1 \<longrightarrow>
      commands_for m (subscription_handler True (subscribe_token m (subscribe_token m s))) =
        Suc (commands_for m s)
    \<and> m \<in> active_tokens
          (subscription_handler True (subscribe_token m (subscribe_token m s))))"
proof (intro conjI impI)
  assume "m \<in> active_tokens s"
  then have "m \<in> active_tokens (subscribe_token m s)"
    by (simp add: subscribe_token_def)
  then have "commands_for m (drain ok q (subscribe_token m s)) =
             commands_for m (subscribe_token m s)" for q
    by (rule drain_subscribed)
  then show "commands_for m (subscription_handler ok (subscribe_token m s)) = commands_for m s"
    by (simp add: subscription_handler_def) (simp add: subscribe_token_def)
next
  show "pending_subscriptions (subscribe_token m s) = pending_subscriptions s @ [m]"
    by (simp add: subscribe_token_def)
next
  let ?s2 = "subscribe_token m (subscribe_token m s)"
  assume a: "m \<notin> active_tokens s \<and> conn s \<noteq> None \<and> handler_tasks s = 1"
  then obtain k where k: "conn ?s2 = Some k"
    by (auto simp add: subscribe_token_def)
  from a have n: "m \<notin> active_tokens ?s2" and q: "m \<in> set (pending_subscriptions ?s2)"
    and h: "handler_tasks ?s2 \<noteq> 0" and c: "commands_for m ?s2 = commands_for m s"
    by (simp_all add: subscribe_token_def)
  from drain_new[OF k n q] h c
  show "commands_for m (subscription_handler True ?s2) = Suc (commands_for m s)"
    and "m \<in> active_tokens (subscription_handler True ?s2)"
    by (simp_all add: subscription_handler_def)
qed

theorem dedup_at_drain_witness:
  "JStr ''ABC'' \<in> active_tokens
       (init_state\<lparr>conn := Some 1, handler_tasks := 1, active_tokens := {JStr ''ABC''}\<rparr>)
   \<and> commands_for (JStr ''ABC'')
       (subscription_handler True (subscribe_token (JStr ''ABC'')
          (init_state\<lparr>conn := Some 1, handler_tasks := 1,
                      active_tokens := {JStr ''ABC''}\<rparr>))) = 0
   \<and> JStr ''ABC'' \<notin> active_tokens (init_state\<lparr>conn := Some 1, handler_tasks := 1\<rparr>)
   \<and> commands_for (JStr ''ABC'')
       (subscription_handler True (subscribe_token (JStr ''ABC'') (subscribe_token (JStr ''ABC'')
          (init_state\<lparr>conn := Some 1, handler_tasks := 1\<rparr>)))) = 1"
  using dedup_at_drain
          [of "JStr ''ABC''"
              "init_state\<lparr>conn := Some 1, handler_tasks := 1, active_tokens := {JStr ''ABC''}\<rparr>"
              True]
        dedup_at_drain
          [of "JStr ''ABC''" "init_state\<lparr>conn := Some 1, handler_tasks := 1\<rparr>" True]
  by (simp add: init_state_def commands_for_def)

subsection \<open>C7: a message without its id or its kind\<close>

text \<open>
  Claim C7: a decoded message that lacks \<^verbatim>\<open>mint\<close> or lacks \<^verbatim>\<open>txType\<close> changes nothing,
  neither the tables nor the counters nor anything else of the state, and the loop goes
  on with the next event. This covers the dict without the key (skipped at line 215) and
  the decoded value that is no dict (its exception is caught at line 293).
\<close>

theorem missing_field_skips_message:
  assumes "lacks_field message ''mint'' \<or> lacks_field message ''txType''"
  shows "snd (main_iteration float_of_str t message s) = s
       \<and> run float_of_str (Recv t message # es) s = run float_of_str es s"
proof (cases message)
  case (JObj items)
  with assms have "\<not> has_key items ''mint'' \<or> \<not> has_key items ''txType''"
    by (simp add: lacks_field_def)
  then have "main_iteration float_of_str t message s = (None, s)"
    unfolding JObj by (rule main_iteration_missing)
  then show ?thesis by simp
qed (simp_all add: main_iteration_def)

theorem missing_field_skips_message_witness:
  "lacks_field (JObj [(''mint'', JStr ''ABC''), (''name'', JStr ''Foo'')]) ''txType''
   \<and> snd (main_iteration (\<lambda>x. None) 1700000000
            (JObj [(''mint'', JStr ''ABC''), (''name'', JStr ''Foo'')]) init_state) = init_state
   \<and> run (\<lambda>x. None)
       [Recv 1700000000 (JObj [(''mint'', JStr ''ABC''), (''name'', JStr ''Foo'')]),
        Recv 1700000001 scenario_create] init_state =
     run (\<lambda>x. None) [Recv 1700000001 scenario_create] init_state"
proof -
  have l: "lacks_field (JObj [(''mint'', JStr ''ABC''), (''name'', JStr ''Foo'')]) ''txType''"
    by (simp add: lacks_field_def has_key_def)
  then have "lacks_field (JObj [(''mint'', JStr ''ABC''), (''name'', JStr ''Foo'')]) ''mint''
           \<or> lacks_field (JObj [(''mint'', JStr ''ABC''), (''name'', JStr ''Foo'')]) ''txType''"
    by simp
  from missing_field_skips_message[OF this] l show ?thesis by simp
qed

subsection \<open>C8: the initial buy is not defaulted on null\<close>

text \<open>
  Claim C8: every numeric field, the initial liquidity taken from \<^verbatim>\<open>initialBuy\<close>
  included, is coerced to a float and is 0 when the field is absent or null.

  The six fields of lines 221-227 are (\<open>float_field_default\<close>). \<^verbatim>\<open>initialBuy\<close> is read
  with \<^verbatim>\<open>data.get('initialBuy', 0)\<close> alone (line 247): with
  \<^verbatim>\<open>{"mint":"ABC","txType":"create","initialBuy":null}\<close> the Entity row gets NULL as its
  initial liquidity, not 0.
\<close>

theorem null_initial_buy_is_stored_as_null:
  "map initial_sol_liquidity
     (tokens (snd (main_iteration float_of_str 1700000000
        (JObj [(''mint'', JStr ''ABC''), (''txType'', JStr ''create''), (''initialBuy'', JNull)])
        init_state))) = [SNull]"
  by (simp add: message_defs init_state_def)

subsection \<open>C9: a second creation message for the same id\<close>

text \<open>
  Claim C9: a creation message for an id that has its Entity row already (an earlier
  creation message left it) adds no Entity row and appends one more Trade Event row of
  kind \<^verbatim>\<open>create\<close> for the id. The message is one whose fields coerce and bind.
\<close>

theorem duplicate_creation_message:
  assumes "map_of items ''mint'' = Some (JStr m)"
      and "map_of items ''txType'' = Some (JStr ''create'')"
      and "SText m \<in> set (map mint (tokens s))"
      and "extract_floats float_of_str ((''timestamp'', JInt t) # items) = Inr f"
      and "token_params ((''timestamp'', JInt t) # items) = Inr entity"
      and "raw_tx_params ((''timestamp'', JInt t) # items) (JStr ''create'')
             (dict_get items ''traderPublicKey'' JNull)
             (dict_get items ''bondingCurveKey'' JNull) f = Inr trade"
  shows "main_iteration float_of_str t (JObj items) s =
           (None,
            s\<lparr>raw_txs := raw_txs s @ [trade\<lparr>tx_id := Suc (length (raw_txs s))\<rparr>],
              pending_subscriptions := pending_subscriptions s @ [JStr m],
              token_creations := token_creations s + 1\<rparr>)
       \<and> tokens (snd (main_iteration float_of_str t (JObj items) s)) = tokens s
       \<and> tx_mint trade = SText m \<and> tx_type trade = SText ''create''"
proof -
  let ?data = "(''timestamp'', JInt t) # items"
  have key: "mint entity = SText m"
    using assms(1,5)
    by (auto simp add: token_params_def subscript_def and_then_def split: sum.splits)
  have tr: "tx_mint trade = SText m \<and> tx_type trade = SText ''create''"
    using assms(1,6)
    by (auto simp add: raw_tx_params_def subscript_def and_then_def split: sum.splits)
  have ins: "snd (insert_or_ignore_token entity s) = s"
    using assms(3) key by (simp add: insert_or_ignore_token_def)
  have cb: "create_block ?data s =
            (None, s\<lparr>pending_subscriptions := pending_subscriptions s @ [JStr m],
                     token_creations := token_creations s + 1\<rparr>)"
    unfolding create_block_ok[OF assms(1,5)] ins by (simp add: subscribe_token_def)
  have nn: "tx_mint trade \<noteq> SNull" using tr by simp
  have "main_iteration float_of_str t (JObj items) s =
        then_do (create_block ?data s)
          (trade_block aiosqlite_connect ?data (JStr ''create'')
             (dict_get items ''traderPublicKey'' JNull)
             (dict_get items ''bondingCurveKey'' JNull) f)"
    using assms(1,2,4) by (rule main_iteration_create)
  also have "\<dots> =
           (None,
            s\<lparr>raw_txs := raw_txs s @ [trade\<lparr>tx_id := Suc (length (raw_txs s))\<rparr>],
              pending_subscriptions := pending_subscriptions s @ [JStr m],
              token_creations := token_creations s + 1\<rparr>)"
    unfolding cb by (simp add: then_do_def trade_block_create_ok[OF assms(6) nn])
  finally show ?thesis using tr by simp
qed

theorem duplicate_creation_message_witness:
  "map_option (\<lambda>(e, s). (e, map mint (tokens s), map tx_type (raw_txs s),
                          map tx_id (raw_txs s)))
     (run (\<lambda>x. None)
        [Recv 1700000000 scenario_create, Recv 1700000001 scenario_create] init_state) =
   Some (None, [SText ''ABC''], [SText ''create'', SText ''create''], [1, 2])"
proof -
  let ?items = "[(''mint'', JStr ''ABC''), (''txType'', JStr ''create''),
                 (''name'', JStr ''Foo''), (''symbol'', JStr ''FOO''), (''initialBuy'', JInt 5)]"
  let ?entity = "\<lparr>mint = SText ''ABC'', timestamp = SInt 1700000000,
                  initial_sol_liquidity = SInt 5, name = SText ''Foo'', symbol = SText ''FOO''\<rparr>"
  let ?trade = "\<lambda>n t. \<lparr>tx_id = n, tx_mint = SText ''ABC'', tx_timestamp = SInt t,
            traderPublicKey = SNull, tx_type = SText ''create'', token_amount = SReal 0,
            sol_amount = SReal 0, new_token_balance = SReal 0, bondingCurveKey = SNull,
            vTokensInBondingCurve = SReal 0, vSolInBondingCurve = SReal 0,
            marketCapSol = SReal 0\<rparr>"
  let ?s1 = "init_state\<lparr>tokens := [?entity], raw_txs := [?trade (Suc 0) 1700000000],
               pending_subscriptions := [JStr ''ABC''], token_creations := Suc 0\<rparr>"
  have sc: "scenario_create = JObj ?items"
    by (simp add: scenario_create_def)
  have s1: "snd (main_iteration (\<lambda>x. None) 1700000000 (JObj ?items) init_state) = ?s1"
    by (simp add: message_defs init_state_def)
  have step: "snd (main_iteration (\<lambda>x. None) 1700000001 (JObj ?items) ?s1) =
           init_state\<lparr>tokens := [?entity],
             raw_txs := [?trade (Suc 0) 1700000000, ?trade 2 1700000001],
             pending_subscriptions := [JStr ''ABC'', JStr ''ABC''], token_creations := 2\<rparr>"
    using duplicate_creation_message
      [of ?items "''ABC''" ?s1 "\<lambda>x. None" 1700000001
          "\<lparr>f_token_amount = 0, f_sol_amount = 0, f_new_token_balance = 0, f_v_tokens_bc = 0,
            f_v_sol_bc = 0, f_market_cap_sol = 0\<rparr>"
          "\<lparr>mint = SText ''ABC'', timestamp = SInt 1700000001,
            initial_sol_liquidity = SInt 5, name = SText ''Foo'', symbol = SText ''FOO''\<rparr>"
          "?trade 0 1700000001"]
    by (simp add: init_state_def dict_get_def extract_floats_def float_field_def py_or_def
          and_then_def token_params_def raw_tx_params_def subscript_def)
  show ?thesis
    by (simp add: sc s1 step)
qed

subsection \<open>C10: a numeric field that does not coerce\<close>

text \<open>
  Claim C10: a message in which some numeric field is present and does not coerce to a
  float writes nothing to either table.

  For the six fields of lines 221-227 this is \<open>uncoercible_field_drops_message\<close>. The
  initial liquidity is a numeric field too and is never coerced (line 247): with
  \<^verbatim>\<open>{"mint":"ABC","txType":"create","initialBuy":"abc"}\<close> the text goes into the Entity
  row and both rows are written, whatever \<^verbatim>\<open>float\<close> makes of \<^verbatim>\<open>'abc'\<close>.
\<close>

theorem unparsable_initial_buy_is_stored:
  "(\<lambda>s. (map mint (tokens s), map initial_sol_liquidity (tokens s), map tx_mint (raw_txs s)))
     (snd (main_iteration float_of_str 1700000000
        (JObj [(''mint'', JStr ''ABC''), (''txType'', JStr ''create''),
               (''initialBuy'', JStr ''abc'')])
        init_state)) =
   ([SText ''ABC''], [SText ''abc''], [SText ''ABC''])"
  by (simp add: message_defs init_state_def)

end
